theory Spec2Isabelle
  imports Complex_Main "HOL-Library.AList"
begin

section \<open>Blocks\<close>

text \<open>
  A position relative to the workspace surface, a pair of numbers. The numbers of the
  source are doubles; they are real numbers here, so the rounding of a double is not
  modelled. The candidate position of a paste comes from \<^verbatim>\<open>parseInt\<close> and is moved by
  multiples of \<^verbatim>\<open>Blockly.SNAP_RADIUS\<close>, a number of pixels: it is a pair of integers.
\<close>

type_synonym coordinate = "real \<times> real"

type_synonym candidate = "int \<times> int"

text \<open>
  A block as this file uses it: an identity, \<^verbatim>\<open>getRelativeToSurfaceXY()\<close> and
  \<^verbatim>\<open>getChildren()\<close>.
\<close>

datatype block =
  Block (blockId: nat) (getRelativeToSurfaceXY: coordinate) (getChildren: "block list")

text \<open>
  Modelled from the spec: \<^verbatim>\<open>block.moveBy(dx, dy)\<close> of the absent block class, "a relative
  move from the block's current position". The blocks attached below a block are drawn
  inside it and keep their place relative to it.
\<close>

fun moveBy :: "real \<Rightarrow> real \<Rightarrow> block \<Rightarrow> block" where
  "moveBy dx dy (Block i (x, y) cs) = Block i (x + dx, y + dy) (map (moveBy dx dy) cs)"

text \<open>
  Modelled from the spec: \<^verbatim>\<open>getAllBlocks()\<close> of the absent base workspace, "every block
  reachable from the top-level set": the top blocks, then the children of each block
  already listed, in the order in which they are met.
\<close>

function collectBlocks :: "block list \<Rightarrow> block list" where
  "collectBlocks [] = []"
| "collectBlocks (b # bs) = b # collectBlocks (bs @ getChildren b)"
  by pat_completeness auto

termination
proof (relation "measure (\<lambda>bs. sum_list (map size bs))")
  show "wf (measure (\<lambda>bs. sum_list (map size bs)))"
    by simp
next
  fix b :: block and bs :: "block list"
  have "sum_list (map size (getChildren b)) < size b"
    by (cases b) (simp add: size_list_conv_sum_list less_Suc_eq_le)
  then show "(bs @ getChildren b, b # bs) \<in> measure (\<lambda>bs. sum_list (map size bs))"
    by simp
qed

section \<open>The environment\<close>

text \<open>
  The constants and browser capabilities that the file reads and that are declared
  elsewhere: \<^verbatim>\<open>Blockly.SNAP_RADIUS\<close>, the \<^verbatim>\<open>goog.userAgent\<close> flags, \<^verbatim>\<open>window['Audio']\<close>,
  whether \<^verbatim>\<open>canPlayType\<close> answers a non-empty string for a MIME type, and whether an audio
  element has a \<^verbatim>\<open>play\<close> method.
\<close>

record env =
  SNAP_RADIUS :: int
  IPAD :: bool
  IPHONE :: bool
  ANDROID :: bool
  DOCUMENT_MODE :: "nat option"
  hasAudio :: bool
  canPlayType :: "string \<Rightarrow> bool"
  audioHasPlay :: bool

section \<open>The workspace\<close>

text \<open>
  Modelled from the spec: the rectangle of a delete zone, of the absent
  \<^verbatim>\<open>goog.math.Rect\<close>; \<^verbatim>\<open>contains\<close> has "closed rectangle semantics (boundary counts as
  inside)".
\<close>

record rect =
  left :: real
  top :: real
  width :: real
  height :: real

definition contains :: "rect \<Rightarrow> coordinate \<Rightarrow> bool" where
  "contains r xy =
     (left r \<le> fst xy \<and> fst xy \<le> left r + width r \<and>
      top r \<le> snd xy \<and> snd xy \<le> top r + height r)"

text \<open>
  Modelled from the spec: the absent collaborators, as far as this file calls them. The
  trash target has \<^verbatim>\<open>getRect()\<close> and the "trash visual state" that \<^verbatim>\<open>setOpen_\<close> opens and
  closes; the two palettes, the flyout and the toolbox, have \<^verbatim>\<open>getRect()\<close>.
\<close>

record trashcan =
  trashRect :: rect
  isOpen :: bool

record flyout =
  flyoutRect :: rect
  autoClose :: bool

record toolbox =
  toolboxRect :: rect

text \<open>An audio element: its file and its volume (1 in a new element).\<close>

record audio =
  src :: string
  volume :: real

type_synonym element = nat

text \<open>
  The fields of a \<^verbatim>\<open>Blockly.WorkspaceSvg\<close>, the private ones without the underscore
  that ends their name in the source. \<open>maxBlocks\<close> is the configured maximum block
  count of the base workspace (\<open>None\<close>: no maximum). \<open>SOUNDS\<close> lists the sounds in the
  order in which \<^verbatim>\<open>for (var name in this.SOUNDS_)\<close> meets them: for names that are not
  array indices, the order in which they were first assigned.
\<close>

record workspace =
  rendered :: bool
  RTL :: bool
  topBlocks :: "block list"
  maxBlocks :: "nat option"
  svgGroup :: "element option"
  svgBlockCanvas :: "element option"
  svgBubbleCanvas :: "element option"
  flyout :: "flyout option"
  toolbox :: "toolbox option"
  trashcan :: "trashcan option"
  deleteAreaTrash :: "rect option"
  deleteAreaToolbox :: "rect option"
  SOUNDS :: "(string \<times> audio) list"

definition getAllBlocks :: "workspace \<Rightarrow> block list" where
  "getAllBlocks ws = collectBlocks (topBlocks ws)"

section \<open>Paste\<close>

text \<open>
  The serialized block handed to \<^verbatim>\<open>paste\<close>: the values of
  \<^verbatim>\<open>parseInt(xmlBlock.getAttribute('x'), 10)\<close> and of the same for \<^verbatim>\<open>'y'\<close> (\<open>None\<close> is NaN),
  and \<^verbatim>\<open>xmlBlock.getElementsByTagName('block').length\<close>, the number of block elements
  below the element.
\<close>

record xmlBlock =
  attrX :: "int option"
  attrY :: "int option"
  descendantBlocks :: nat

text \<open>
  Modelled from the spec: \<^verbatim>\<open>remainingCapacity()\<close> of the absent base workspace, the
  room left under "a configured maximum block count"; \<open>None\<close> is JavaScript's Infinity
  (no maximum configured).
\<close>

definition remainingCapacity :: "workspace \<Rightarrow> int option" where
  "remainingCapacity ws =
     (case maxBlocks ws of
        None \<Rightarrow> None
      | Some m \<Rightarrow> Some (int m - int (length (getAllBlocks ws))))"

text \<open>Lines 341-342: \<^verbatim>\<open>xmlBlock.getElementsByTagName('block').length >= this.remainingCapacity()\<close>.\<close>

definition overCapacity :: "workspace \<Rightarrow> xmlBlock \<Rightarrow> bool" where
  "overCapacity ws xml =
     (case remainingCapacity ws of
        None \<Rightarrow> False
      | Some r \<Rightarrow> int (descendantBlocks xml) \<ge> r)"

text \<open>Line 359-360: the test of the candidate against one other block's position.\<close>

definition collides :: "candidate \<Rightarrow> coordinate \<Rightarrow> bool" where
  "collides c otherXY =
     (\<bar>real_of_int (fst c) - fst otherXY\<bar> \<le> 1 \<and> \<bar>real_of_int (snd c) - snd otherXY\<bar> \<le> 1)"

text \<open>Lines 361-366: one displacement of the candidate.\<close>

definition displace :: "bool \<Rightarrow> int \<Rightarrow> candidate \<Rightarrow> candidate" where
  "displace rtl S c = (if rtl then fst c - S else fst c + S, snd c + S * 2)"

text \<open>
  Lines 357-369: the \<^verbatim>\<open>for\<close> loop over \<^verbatim>\<open>allBlocks\<close>. Its state is the candidate and the
  flag \<^verbatim>\<open>collide\<close>; after a collision the loop goes on with the next block and the moved
  candidate.
\<close>

fun scan :: "bool \<Rightarrow> int \<Rightarrow> block list \<Rightarrow> candidate \<times> bool \<Rightarrow> candidate \<times> bool" where
  "scan rtl S [] st = st"
| "scan rtl S (otherBlock # rest) (c, collide) =
     (if collides c (getRelativeToSurfaceXY otherBlock)
      then scan rtl S rest (displace rtl S c, True)
      else scan rtl S rest (c, collide))"

text \<open>
  Lines 354-370: the \<^verbatim>\<open>do ... while (collide)\<close> loop. It has no bound on its iterations;
  \<open>None\<close> is the loop that never ends.
\<close>

partial_function (option) offsetLoop ::
  "bool \<Rightarrow> int \<Rightarrow> block list \<Rightarrow> candidate \<Rightarrow> candidate option" where
  "offsetLoop rtl S allBlocks c =
     (case scan rtl S allBlocks (c, False) of
        (c', collide) \<Rightarrow> if collide then offsetLoop rtl S allBlocks c' else Some c')"

declare offsetLoop.simps [code]

text \<open>
  Lines 340-374. The deserializer \<^verbatim>\<open>Blockly.Xml.domToBlock\<close> is absent: \<open>domToBlock\<close> is
  the block that it builds from the element, at the position where it builds it; modelled
  from the spec ("serialized-subtree to Block, given a target workspace"), the new block
  becomes a top block of the workspace. The result is the workspace and the block that
  \<^verbatim>\<open>select()\<close> was called on (\<open>None\<close> when \<^verbatim>\<open>paste\<close> returned at line 343); \<open>None\<close> for
  the whole is a \<^verbatim>\<open>paste\<close> that never returns.
\<close>

definition paste ::
  "env \<Rightarrow> (xmlBlock \<Rightarrow> block) \<Rightarrow> workspace \<Rightarrow> xmlBlock \<Rightarrow> (workspace \<times> block option) option" where
  "paste e domToBlock ws xml =
     (if overCapacity ws xml then Some (ws, None)
      else
        let block = domToBlock xml;
            ws1 = ws\<lparr>topBlocks := topBlocks ws @ [block]\<rparr>
        in case (attrX xml, attrY xml) of
             (Some blockX, Some blockY) \<Rightarrow>
               (case offsetLoop (RTL ws) (SNAP_RADIUS e) (getAllBlocks ws1)
                       (if RTL ws then - blockX else blockX, blockY) of
                  None \<Rightarrow> None
                | Some (blockX', blockY') \<Rightarrow>
                    let moved = moveBy (real_of_int blockX') (real_of_int blockY') block
                    in Some (ws\<lparr>topBlocks := topBlocks ws @ [moved]\<rparr>, Some moved))
           | _ \<Rightarrow> Some (ws1, Some block))"




definition freeAt :: "block list \<Rightarrow> candidate \<Rightarrow> bool" where
  "freeAt bs c = (\<forall>b \<in> set bs. \<not> collides c (getRelativeToSurfaceXY b))"


section \<open>Render\<close>

text \<open>
  Lines 264-271. The loop \<^verbatim>\<open>for (var x = 0, block; block = renderList[x]; x++)\<close> ends at the
  first element that is not truthy; every block is an object, so it ends after the last
  one. The result lists the blocks whose \<^verbatim>\<open>render()\<close> is called, in order.
\<close>

fun renderLoop :: "block list \<Rightarrow> block list" where
  "renderLoop [] = []"
| "renderLoop (block # renderList) =
     (if length (getChildren block) = 0 then block # renderLoop renderList
      else renderLoop renderList)"

definition render :: "workspace \<Rightarrow> block list" where
  "render ws = renderLoop (getAllBlocks ws)"

text \<open>The blocks reachable from a set of top blocks, as the specification words it.\<close>

inductive_set reachable :: "block list \<Rightarrow> block set" for tops :: "block list" where
  top: "b \<in> set tops \<Longrightarrow> b \<in> reachable tops"
| child: "b \<in> reachable tops \<Longrightarrow> c \<in> set (getChildren b) \<Longrightarrow> c \<in> reachable tops"

section \<open>Dispose\<close>




section \<open>Delete areas\<close>

text \<open>Lines 379-392.\<close>

definition recordDeleteAreas :: "workspace \<Rightarrow> workspace" where
  "recordDeleteAreas ws =
     (let ws1 =
            (case trashcan ws of
               Some t \<Rightarrow> ws\<lparr>deleteAreaTrash := Some (trashRect t)\<rparr>
             | None \<Rightarrow> ws\<lparr>deleteAreaTrash := None\<rparr>)
      in case flyout ws1 of
           Some f \<Rightarrow> ws1\<lparr>deleteAreaToolbox := Some (flyoutRect f)\<rparr>
         | None \<Rightarrow>
             (case toolbox ws1 of
                Some tb \<Rightarrow> ws1\<lparr>deleteAreaToolbox := Some (toolboxRect tb)\<rparr>
              | None \<Rightarrow> ws1\<lparr>deleteAreaToolbox := None\<rparr>))"

text \<open>The cursors of \<^verbatim>\<open>Blockly.Css.Cursor\<close> that the file names.\<close>

datatype cursor = CLOSED | DELETE

text \<open>A method call on \<^verbatim>\<open>this.trashcan\<close> when it is \<^verbatim>\<open>null\<close>.\<close>

datatype error = TypeError

text \<open>Lines 412-419: the test of the toolbox rectangle and the neutral cursor.\<close>

definition toolboxArea :: "workspace \<Rightarrow> coordinate \<Rightarrow> bool \<times> cursor \<times> workspace" where
  "toolboxArea ws xy =
     (case deleteAreaToolbox ws of
        Some r \<Rightarrow> if contains r xy then (True, DELETE, ws) else (False, CLOSED, ws)
      | None \<Rightarrow> (False, CLOSED, ws))"

text \<open>
  Lines 400-420. \<open>xy\<close> is \<^verbatim>\<open>Blockly.mouseToSvg(e)\<close>, the event in surface coordinates. The
  result is the value returned, the cursor given to \<^verbatim>\<open>Blockly.Css.setCursor\<close> and the
  workspace.
\<close>

definition isDeleteArea :: "workspace \<Rightarrow> coordinate \<Rightarrow> error + bool \<times> cursor \<times> workspace" where
  "isDeleteArea ws xy =
     (case deleteAreaTrash ws of
        Some trashArea \<Rightarrow>
          (case trashcan ws of
             None \<Rightarrow> Inl TypeError
           | Some t \<Rightarrow>
               if contains trashArea xy
               then Inr (True, DELETE, ws\<lparr>trashcan := Some (t\<lparr>isOpen := True\<rparr>)\<rparr>)
               else Inr (toolboxArea (ws\<lparr>trashcan := Some (t\<lparr>isOpen := False\<rparr>)\<rparr>) xy))
      | None \<Rightarrow> Inr (toolboxArea ws xy))"

section \<open>Sounds\<close>

text \<open>
  \<open>loadAudio\<close> and \<open>preloadAudio\<close> below are \<^verbatim>\<open>loadAudio_\<close> and \<^verbatim>\<open>preloadAudio_\<close> of the
  source.
\<close>

text \<open>The characters of the class \<^verbatim>\<open>\w\<close>: letters, digits and the underscore.\<close>

definition isWordChar :: "char \<Rightarrow> bool" where
  "isWordChar ch =
     (let n = (of_char ch :: nat)
      in (48 \<le> n \<and> n \<le> 57) \<or> (65 \<le> n \<and> n \<le> 90) \<or> n = 95 \<or> (97 \<le> n \<and> n \<le> 122))"

text \<open>
  Line 439: \<^verbatim>\<open>filename.match(/\.(\w+)$/)\<close>, the group \<^verbatim>\<open>ext[1]\<close>: the word characters
  that end the name, when there are some and a dot stands before them.
\<close>

definition fileExt :: "string \<Rightarrow> string option" where
  "fileExt filename =
     (let w = takeWhile isWordChar (rev filename);
          r = dropWhile isWordChar (rev filename)
      in case r of
           [] \<Rightarrow> None
         | ch # _ \<Rightarrow> if ch = CHR ''.'' \<and> w \<noteq> [] then Some (rev w) else None)"

text \<open>
  The calls made on the browser's audio: \<^verbatim>\<open>new window['Audio']()\<close>, the element that is only
  asked what it plays (\<open>NewAudio None\<close>), and \<^verbatim>\<open>new window['Audio'](filename)\<close>;
  \<^verbatim>\<open>audioTest.canPlayType(type)\<close>; and on an element \<^verbatim>\<open>cloneNode()\<close>, \<^verbatim>\<open>play()\<close> and \<^verbatim>\<open>pause()\<close>,
  each with the element as it is at the call.
\<close>

datatype audioCall =
  NewAudio "string option" | CanPlayType string | CloneNode audio | Play audio | Pause audio

text \<open>
  Lines 437-445: the loop over the file names, left at the first one that plays.
  \<^verbatim>\<open>canPlayType\<close> is asked only about a name that has an extension.
\<close>

fun probeLoop :: "env \<Rightarrow> string list \<Rightarrow> audio option \<times> audioCall list" where
  "probeLoop e [] = (None, [])"
| "probeLoop e (filename # filenames) =
     (case fileExt filename of
        None \<Rightarrow> probeLoop e filenames
      | Some ext \<Rightarrow>
          if canPlayType e (''audio/'' @ ext)
          then (Some \<lparr>src = filename, volume = 1\<rparr>,
                [CanPlayType (''audio/'' @ ext), NewAudio (Some filename)])
          else
            let (sound, calls) = probeLoop e filenames
            in (sound, CanPlayType (''audio/'' @ ext) # calls))"

text \<open>Lines 430-449.\<close>

definition loadAudio ::
  "env \<Rightarrow> string list \<Rightarrow> string \<Rightarrow> workspace \<Rightarrow> workspace \<times> audioCall list" where
  "loadAudio e filenames name ws =
     (if \<not> hasAudio e \<or> length filenames = 0 then (ws, [])
      else
        let (sound, calls) = probeLoop e filenames
        in case sound of
             None \<Rightarrow> (ws, NewAudio None # calls)
           | Some sound \<Rightarrow>
               if audioHasPlay e
               then (ws\<lparr>SOUNDS := AList.update name sound (SOUNDS ws)\<rparr>, NewAudio None # calls)
               else (ws, NewAudio None # calls))"

text \<open>
  A file name whose extension the probe declares playable, as the specification words the
  choice of \<open>loadAudio\<close>.
\<close>

definition playable :: "env \<Rightarrow> string \<Rightarrow> bool" where
  "playable e filename =
     (case fileExt filename of
        None \<Rightarrow> False
      | Some ext \<Rightarrow> canPlayType e (''audio/'' @ ext))"

text \<open>The calls that probe what the browser plays.\<close>

fun isProbe :: "audioCall \<Rightarrow> bool" where
  "isProbe (NewAudio None) = True"
| "isProbe (CanPlayType mime) = True"
| "isProbe call = False"

text \<open>The elements that \<^verbatim>\<open>play()\<close> was called on, among the calls made.\<close>

fun played :: "audioCall list \<Rightarrow> audio list" where
  "played [] = []"
| "played (Play a # calls) = a # played calls"
| "played (call # calls) = played calls"

text \<open>Lines 456-466: the loop over the sounds, left after the first one on iPad and iPhone.\<close>

fun preloadLoop ::
  "env \<Rightarrow> (string \<times> audio) list \<Rightarrow> (string \<times> audio) list \<times> audioCall list" where
  "preloadLoop e [] = ([], [])"
| "preloadLoop e ((name, sound) # sounds) =
     (let sound' = sound\<lparr>volume := 0.01\<rparr>
      in if IPAD e \<or> IPHONE e
         then ((name, sound') # sounds, [Play sound', Pause sound'])
         else
           let (sounds', calls) = preloadLoop e sounds
           in ((name, sound') # sounds', Play sound' # Pause sound' # calls))"

definition preloadAudio :: "env \<Rightarrow> workspace \<Rightarrow> workspace \<times> audioCall list" where
  "preloadAudio e ws =
     (let (sounds', calls) = preloadLoop e (SOUNDS ws)
      in (ws\<lparr>SOUNDS := sounds'\<rparr>, calls))"

text \<open>
  A workspace with \<^verbatim>\<open>this.options.parentWorkspace\<close>, the workspace that it was made for,
  if any.
\<close>

datatype surface = Surface (workspaceOf: workspace) (parentWorkspace: "surface option")

text \<open>
  Lines 475-495. \<open>opt_volume\<close> is \<open>None\<close> when the argument is \<^verbatim>\<open>undefined\<close>. The element's
  own check of the range of a volume is not part of this file.
\<close>

fun playAudio :: "env \<Rightarrow> string \<Rightarrow> real option \<Rightarrow> surface \<Rightarrow> surface \<times> audioCall list" where
  "playAudio e name opt_volume (Surface ws parent) =
     (case map_of (SOUNDS ws) name of
        Some sound \<Rightarrow>
          let ie9 = (DOCUMENT_MODE e = Some 9);
              v = (case opt_volume of None \<Rightarrow> 1 | Some v \<Rightarrow> v)
          in if ie9 \<or> IPAD e \<or> ANDROID e
             then
               let mySound = sound\<lparr>volume := v\<rparr>
               in (Surface (ws\<lparr>SOUNDS := AList.update name mySound (SOUNDS ws)\<rparr>) parent,
                   [Play mySound])
             else (Surface ws parent, [CloneNode sound, Play (sound\<lparr>volume := v\<rparr>)])
      | None \<Rightarrow>
          (case parent of
             Some p \<Rightarrow>
               let (p', calls) = playAudio e name opt_volume p
               in (Surface ws (Some p'), calls)
           | None \<Rightarrow> (Surface ws None, [])))"

text \<open>The ancestors of a workspace, nearest first, starting with the workspace itself.\<close>

fun ancestors :: "surface \<Rightarrow> workspace list" where
  "ancestors (Surface ws None) = [ws]"
| "ancestors (Surface ws (Some p)) = ws # ancestors p"


section \<open>Example inputs\<close>

text \<open>
  A desktop browser that plays only \<^verbatim>\<open>audio/wav\<close>, with a snap radius of 20, and a workspace
  with nothing on it.
\<close>

definition desktop :: env where
  "desktop =
     \<lparr>SNAP_RADIUS = 20, IPAD = False, IPHONE = False, ANDROID = False, DOCUMENT_MODE = None,
      hasAudio = True, canPlayType = (\<lambda>mime. mime = ''audio/wav''), audioHasPlay = True\<rparr>"

definition emptyWorkspace :: workspace where
  "emptyWorkspace =
     \<lparr>rendered = True, RTL = False, topBlocks = [], maxBlocks = None,
      svgGroup = Some 0, svgBlockCanvas = Some 1, svgBubbleCanvas = Some 2,
      flyout = None, toolbox = None, trashcan = None,
      deleteAreaTrash = None, deleteAreaToolbox = None, SOUNDS = []\<rparr>"

text \<open>
  The empty workspace with a flyout on the left and an open trashcan, their rectangles
  recorded; a workspace with two sounds; a workspace inside a workspace inside the
  workspace with the sounds; an iPhone.
\<close>

definition zonedWorkspace :: workspace where
  "zonedWorkspace =
     recordDeleteAreas
       (emptyWorkspace
          \<lparr>flyout := Some \<lparr>flyoutRect = \<lparr>left = 0, top = 0, width = 80, height = 400\<rparr>,
                             autoClose = False\<rparr>,
           trashcan := Some \<lparr>trashRect = \<lparr>left = 100, top = 100, width = 50, height = 50\<rparr>,
                               isOpen = True\<rparr>\<rparr>)"

definition soundWorkspace :: workspace where
  "soundWorkspace =
     emptyWorkspace
       \<lparr>SOUNDS := [(''click'', \<lparr>src = ''media/click.wav'', volume = 1\<rparr>),
                   (''delete'', \<lparr>src = ''media/delete.wav'', volume = 1\<rparr>)]\<rparr>"

definition nested :: surface where
  "nested =
     Surface emptyWorkspace (Some (Surface emptyWorkspace (Some (Surface soundWorkspace None))))"

definition iphone :: env where
  "iphone = desktop\<lparr>IPHONE := True\<rparr>"

section \<open>The placement loop\<close>











lemma reachable_Nil: "reachable [] = {}"
proof -
  have "False" if "x \<in> reachable []" for x
    using that by induction simp_all
  then show ?thesis by blast
qed

lemma reachable_Cons: "reachable (b # bs) = insert b (reachable (bs @ getChildren b))"
proof (intro set_eqI iffI)
  fix x
  assume "x \<in> reachable (b # bs)"
  then show "x \<in> insert b (reachable (bs @ getChildren b))"
  proof induction
    case (top x)
    then show ?case by (auto intro: reachable.top)
  next
    case (child x c)
    then show ?case by (auto intro: reachable.top reachable.child)
  qed
next
  fix x
  assume "x \<in> insert b (reachable (bs @ getChildren b))"
  moreover have "b \<in> reachable (b # bs)" by (simp add: reachable.top)
  moreover have "x \<in> reachable (b # bs)" if "x \<in> reachable (bs @ getChildren b)"
    using that
  proof induction
    case (top x)
    have "b \<in> reachable (b # bs)" by (simp add: reachable.top)
    with top show ?case
      by (auto intro: reachable.top dest: reachable.child [of b "b # bs"])
  next
    case (child x c)
    then show ?case by (auto intro: reachable.child)
  qed
  ultimately show "x \<in> reachable (b # bs)" by blast
qed

lemma set_collectBlocks: "set (collectBlocks bs) = reachable bs"
  by (induction bs rule: collectBlocks.induct) (simp_all add: reachable_Nil reachable_Cons)

lemma reachable_append: "x \<in> reachable bs \<Longrightarrow> x \<in> reachable (bs @ cs)"
  by (induction rule: reachable.induct) (auto intro: reachable.top reachable.child)

lemma getAllBlocks_pasted:
  "set (getAllBlocks ws) \<subseteq> set (getAllBlocks (ws\<lparr>topBlocks := topBlocks ws @ [b]\<rparr>))"
  by (auto simp: getAllBlocks_def set_collectBlocks reachable_append)







text \<open>
  The loop has no bound: with a snap radius of 0 a candidate that collides is never moved
  away, and \<open>paste\<close> does not return.
\<close>

lemma scan_still: "scan rtl 0 bs (c, col) = (c, col \<or> \<not> freeAt bs c)"
  by (induction bs arbitrary: col) (auto simp: freeAt_def displace_def)

lemma offsetLoop_still:
  assumes "offsetLoop rtl S bs c = Some y"
  shows "S = 0 \<longrightarrow> freeAt bs c"
proof (rule offsetLoop.raw_induct [where P = "\<lambda>rtl S bs c y. S = 0 \<longrightarrow> freeAt bs c", OF _ assms])
  fix loop rtl S bs c y
  assume later: "\<And>rtl S bs c y. loop rtl S bs c = Some y \<Longrightarrow> S = 0 \<longrightarrow> freeAt bs c"
    and now: "(case scan rtl S bs (c, False) of
                 (c', collide) \<Rightarrow> if collide then loop rtl S bs c' else Some c') = Some y"
  show "S = 0 \<longrightarrow> freeAt bs c"
  proof
    assume "S = 0"
    with now later [of rtl S bs c y] show "freeAt bs c"
      by (cases "freeAt bs c") (auto simp: scan_still)
  qed
qed

lemma paste_never_returns:
  assumes "SNAP_RADIUS e = 0" and "\<not> overCapacity ws xml"
    and "attrX xml = Some x" and "attrY xml = Some y"
    and "b \<in> set (getAllBlocks ws)"
    and "collides (if RTL ws then - x else x, y) (getRelativeToSurfaceXY b)"
  shows "paste e domToBlock ws xml = None"
proof -
  let ?bs = "getAllBlocks (ws\<lparr>topBlocks := topBlocks ws @ [domToBlock xml]\<rparr>)"
  from assms(5) getAllBlocks_pasted [of ws "domToBlock xml"] have "b \<in> set ?bs"
    by blast
  with assms(6) have "\<not> freeAt ?bs (if RTL ws then - x else x, y)"
    by (auto simp: freeAt_def)
  with offsetLoop_still [of "RTL ws" 0 ?bs "(if RTL ws then - x else x, y)"]
  have "offsetLoop (RTL ws) 0 ?bs (if RTL ws then - x else x, y) = None"
    by (cases "offsetLoop (RTL ws) 0 ?bs (if RTL ws then - x else x, y)") auto
  with assms(1-4) show ?thesis
    by (simp add: paste_def Let_def)
qed

section \<open>Paste: the placement\<close>





section \<open>Paste: the capacity\<close>




section \<open>Render\<close>

lemma renderLoop_filter: "renderLoop bs = filter (\<lambda>b. getChildren b = []) bs"
  by (induction bs) simp_all

text \<open>
  C8. \<open>render\<close> goes through the blocks reachable from the top blocks and calls \<open>render()\<close>
  on those without children, and on no block that has children. When the only top block
  \<open>A\<close> has the one child \<open>B\<close>, and \<open>B\<close> has none, \<open>render()\<close> is called on \<open>B\<close> only.
\<close>

theorem render_leaves:
  "render ws = filter (\<lambda>b. getChildren b = []) (getAllBlocks ws)
   \<and> set (getAllBlocks ws) = reachable (topBlocks ws)
   \<and> set (render ws) = {b \<in> reachable (topBlocks ws). getChildren b = []}
   \<and> (\<forall>b \<in> reachable (topBlocks ws). getChildren b \<noteq> [] \<longrightarrow> b \<notin> set (render ws))
   \<and> (topBlocks ws = [Block a p [Block b q []]] \<longrightarrow> render ws = [Block b q []])"
proof (intro conjI ballI impI)
  show r: "render ws = filter (\<lambda>b. getChildren b = []) (getAllBlocks ws)"
    by (simp add: render_def renderLoop_filter)
  show g: "set (getAllBlocks ws) = reachable (topBlocks ws)"
    by (simp add: getAllBlocks_def set_collectBlocks)
  show "set (render ws) = {b \<in> reachable (topBlocks ws). getChildren b = []}"
    unfolding r using g by auto
  show "b \<notin> set (render ws)" if "getChildren b \<noteq> []" for b
    unfolding r using that by simp
  show "render ws = [Block b q []]" if "topBlocks ws = [Block a p [Block b q []]]"
    using that by (simp add: render_def getAllBlocks_def)
qed

theorem render_leaves_witness:
  "Block 1 (0, 0) [Block 2 (0, 20) []]
     \<in> reachable (topBlocks (emptyWorkspace\<lparr>topBlocks := [Block 1 (0, 0) [Block 2 (0, 20) []]]\<rparr>))
   \<and> getChildren (Block 1 (0, 0) [Block 2 (0, 20) []]) \<noteq> []
   \<and> Block 1 (0, 0) [Block 2 (0, 20) []]
       \<notin> set (render (emptyWorkspace\<lparr>topBlocks := [Block 1 (0, 0) [Block 2 (0, 20) []]]\<rparr>))
   \<and> render (emptyWorkspace\<lparr>topBlocks := [Block 1 (0, 0) [Block 2 (0, 20) []]]\<rparr>)
       = [Block 2 (0, 20) []]"
proof -
  let ?A = "Block 1 (0, 0) [Block 2 (0, 20) []]"
  let ?ws = "emptyWorkspace\<lparr>topBlocks := [?A]\<rparr>"
  have tops: "topBlocks ?ws = [?A]"
    by simp
  have top: "?A \<in> reachable (topBlocks ?ws)"
    unfolding tops by (rule reachable.top) simp
  have kids: "getChildren ?A \<noteq> []"
    by simp
  from render_leaves [of ?ws 1 "(0, 0)" 2 "(0, 20)"] tops top kids
  have "?A \<notin> set (render ?ws) \<and> render ?ws = [Block 2 (0, 20) []]"
    by blast
  with top kids show ?thesis
    by blast
qed

section \<open>Delete areas\<close>

text \<open>
  \<open>recordDeleteAreas\<close> records a trash rectangle only from a trashcan, and leaves the
  trashcan in place: after it, the trashcan of a recorded trash rectangle is there.
\<close>

lemma recordDeleteAreas_trash:
  "deleteAreaTrash (recordDeleteAreas ws) = map_option trashRect (trashcan ws)
   \<and> trashcan (recordDeleteAreas ws) = trashcan ws"
  by (simp add: recordDeleteAreas_def Let_def split: option.splits)

text \<open>
  A trash rectangle that has outlived its trashcan, as after \<open>dispose\<close>, makes
  \<open>isDeleteArea\<close> fail.
\<close>

lemma isDeleteArea_without_trashcan:
  "deleteAreaTrash ws = Some r \<Longrightarrow> trashcan ws = None \<Longrightarrow> isDeleteArea ws xy = Inl TypeError"
  by (simp add: isDeleteArea_def)

text \<open>
  C3. For a workspace whose trash rectangle, if recorded, has its trashcan, and every
  point: inside the trash rectangle, the trashcan is opened, the cursor is \<open>DELETE\<close> and the
  answer is true; with a trash rectangle and the point outside it, the trashcan is closed,
  whatever the toolbox rectangle says; inside the toolbox rectangle the answer is true,
  with the cursor \<open>DELETE\<close>; inside neither, the cursor is \<open>CLOSED\<close> and the answer is false.
\<close>

theorem isDeleteArea_zones:
  assumes "deleteAreaTrash ws = None \<or> trashcan ws \<noteq> None"
  shows "(\<forall>r t. deleteAreaTrash ws = Some r \<and> trashcan ws = Some t \<and> contains r xy \<longrightarrow>
            isDeleteArea ws xy = Inr (True, DELETE, ws\<lparr>trashcan := Some (t\<lparr>isOpen := True\<rparr>)\<rparr>))
       \<and> (\<forall>r t. deleteAreaTrash ws = Some r \<and> trashcan ws = Some t \<and> \<not> contains r xy \<longrightarrow>
            (\<exists>d c. isDeleteArea ws xy = Inr (d, c, ws\<lparr>trashcan := Some (t\<lparr>isOpen := False\<rparr>)\<rparr>)))
       \<and> (\<forall>r'. deleteAreaToolbox ws = Some r' \<and> contains r' xy \<longrightarrow>
            (\<exists>ws'. isDeleteArea ws xy = Inr (True, DELETE, ws')))
       \<and> ((\<forall>r. deleteAreaTrash ws = Some r \<longrightarrow> \<not> contains r xy)
            \<and> (\<forall>r'. deleteAreaToolbox ws = Some r' \<longrightarrow> \<not> contains r' xy) \<longrightarrow>
            (\<exists>ws'. isDeleteArea ws xy = Inr (False, CLOSED, ws')))"
  using assms
  by (auto simp: isDeleteArea_def toolboxArea_def split: option.splits)

theorem isDeleteArea_zones_witness:
  "(deleteAreaTrash zonedWorkspace = None \<or> trashcan zonedWorkspace \<noteq> None)
   \<and> isDeleteArea zonedWorkspace (120, 120) =
       Inr (True, DELETE, zonedWorkspace\<lparr>trashcan :=
         Some \<lparr>trashRect = \<lparr>left = 100, top = 100, width = 50, height = 50\<rparr>, isOpen = True\<rparr>\<rparr>)
   \<and> (\<exists>d c. isDeleteArea zonedWorkspace (10, 10) =
       Inr (d, c, zonedWorkspace\<lparr>trashcan :=
         Some \<lparr>trashRect = \<lparr>left = 100, top = 100, width = 50, height = 50\<rparr>, isOpen = False\<rparr>\<rparr>))
   \<and> (\<exists>ws'. isDeleteArea zonedWorkspace (10, 10) = Inr (True, DELETE, ws'))
   \<and> (\<exists>ws'. isDeleteArea zonedWorkspace (90, 300) = Inr (False, CLOSED, ws'))"
proof -
  let ?R = "\<lparr>left = 100, top = 100, width = 50, height = 50\<rparr>"
  let ?F = "\<lparr>left = 0, top = 0, width = 80, height = 400\<rparr>"
  have area: "deleteAreaTrash zonedWorkspace = Some ?R"
    and can: "trashcan zonedWorkspace = Some \<lparr>trashRect = ?R, isOpen = True\<rparr>"
    and tray: "deleteAreaToolbox zonedWorkspace = Some ?F"
    by (simp_all add: zonedWorkspace_def recordDeleteAreas_def emptyWorkspace_def)
  from can have inv: "deleteAreaTrash zonedWorkspace = None \<or> trashcan zonedWorkspace \<noteq> None"
    by simp
  have inside: "contains ?R (120, 120)"
    and tray_only: "\<not> contains ?R (10, 10)" "contains ?F (10, 10)"
    and outside: "\<not> contains ?R (90, 300)" "\<not> contains ?F (90, 300)"
    by (simp_all add: contains_def)
  from isDeleteArea_zones [OF inv, of "(120, 120)"] area can inside
  have a: "isDeleteArea zonedWorkspace (120, 120) =
       Inr (True, DELETE, zonedWorkspace\<lparr>trashcan := Some \<lparr>trashRect = ?R, isOpen = True\<rparr>\<rparr>)"
    by fastforce
  from isDeleteArea_zones [OF inv, of "(10, 10)"] area can tray tray_only
  have b: "\<exists>d c. isDeleteArea zonedWorkspace (10, 10) =
       Inr (d, c, zonedWorkspace\<lparr>trashcan := Some \<lparr>trashRect = ?R, isOpen = False\<rparr>\<rparr>)"
    and c: "\<exists>ws'. isDeleteArea zonedWorkspace (10, 10) = Inr (True, DELETE, ws')"
    by fastforce+
  from isDeleteArea_zones [OF inv, of "(90, 300)"] area tray outside
  have d: "\<exists>ws'. isDeleteArea zonedWorkspace (90, 300) = Inr (False, CLOSED, ws')"
    by fastforce
  from inv a b c d show ?thesis
    by blast
qed

section \<open>Dispose\<close>



section \<open>Sounds\<close>

lemma probeLoop_find:
  "fst (probeLoop e filenames) =
     map_option (\<lambda>f. \<lparr>src = f, volume = 1\<rparr>) (find (playable e) filenames)"
  by (induction filenames) (auto simp: playable_def split: option.splits prod.splits)

lemma probeLoop_calls:
  "NewAudio None \<notin> set (snd (probeLoop e filenames))
   \<and> length (filter isProbe (snd (probeLoop e filenames))) \<le> length filenames"
  by (induction filenames) (auto split: option.splits prod.splits)

lemma loadAudio_find:
  "fst (loadAudio e filenames name ws) =
     (if hasAudio e \<and> audioHasPlay e
      then case find (playable e) filenames of
             None \<Rightarrow> ws
           | Some f \<Rightarrow> ws\<lparr>SOUNDS := AList.update name \<lparr>src = f, volume = 1\<rparr> (SOUNDS ws)\<rparr>
      else ws)"
proof (cases "fst (probeLoop e filenames)")
  case None
  then have "find (playable e) filenames = None"
    by (simp add: probeLoop_find)
  with None show ?thesis
    by (auto simp: loadAudio_def split: prod.splits)
next
  case (Some sound)
  then obtain f where "find (playable e) filenames = Some f" "sound = \<lparr>src = f, volume = 1\<rparr>"
    by (auto simp: probeLoop_find)
  moreover from this have "filenames \<noteq> []"
    by auto
  ultimately show ?thesis
    using Some by (auto simp: loadAudio_def split: prod.splits)
qed

lemma loadAudio_calls:
  "length (filter (\<lambda>call. call = NewAudio None) (snd (loadAudio e filenames name ws))) \<le> 1
   \<and> length (filter isProbe (snd (loadAudio e filenames name ws))) \<le> 1 + length filenames"
proof -
  have "filter (\<lambda>call. call = NewAudio None) (snd (probeLoop e filenames)) = []"
    using probeLoop_calls [of e filenames] by (auto simp: filter_empty_conv)
  then show ?thesis
    using probeLoop_calls [of e filenames]
    by (auto simp: loadAudio_def split: prod.splits option.splits)
qed

lemma preloadLoop_no_probe: "filter isProbe (snd (preloadLoop e sounds)) = []"
  by (induction sounds) (auto simp: Let_def split: prod.splits)

lemma playAudio_no_probe: "filter isProbe (snd (playAudio e name v s)) = []"
  by (induction e name v s rule: playAudio.induct)
     (auto simp: Let_def split: option.splits prod.splits)

lemma playAudio_names:
  "map fst (SOUNDS (workspaceOf (fst (playAudio e name v (Surface ws parent))))) = map fst (SOUNDS ws)"
proof (cases "map_of (SOUNDS ws) name")
  case None
  then show ?thesis by (simp split: option.splits prod.splits)
next
  case (Some sound)
  then have "name \<in> set (map fst (SOUNDS ws))"
    by (metis map_of_eq_None_iff option.distinct(1) set_map)
  with Some show ?thesis by (simp add: Let_def AList.update_keys)
qed

lemma wav_only:
  assumes "\<forall>mime. canPlayType e mime = (mime = ''audio/wav'')"
  shows "find (playable e) [''a.mp3'', ''a.wav''] = Some ''a.wav''"
proof -
  have "fileExt ''a.mp3'' = Some ''mp3''" and "fileExt ''a.wav'' = Some ''wav''"
    by (simp_all add: fileExt_def isWordChar_def)
  with assms show ?thesis by (simp add: playable_def)
qed

lemma preloadLoop_all:
  assumes "\<not> (IPAD e \<or> IPHONE e)"
  shows "preloadLoop e sounds =
           (map (\<lambda>(name, sound). (name, sound\<lparr>volume := 0.01\<rparr>)) sounds,
            concat (map (\<lambda>(name, sound).
              [Play (sound\<lparr>volume := 0.01\<rparr>), Pause (sound\<lparr>volume := 0.01\<rparr>)]) sounds))"
  using assms by (induction sounds) (auto simp: Let_def)

lemma preloadLoop_first:
  assumes "IPAD e \<or> IPHONE e"
  shows "preloadLoop e sounds =
           (map (\<lambda>(name, sound). (name, sound\<lparr>volume := 0.01\<rparr>)) (take 1 sounds) @ drop 1 sounds,
            concat (map (\<lambda>(name, sound).
              [Play (sound\<lparr>volume := 0.01\<rparr>), Pause (sound\<lparr>volume := 0.01\<rparr>)]) (take 1 sounds)))"
  using assms by (cases sounds) (auto simp: Let_def)

lemma playAudio_here:
  assumes "map_of (SOUNDS ws) name = Some sound"
  shows "playAudio e name v (Surface ws parent) =
           (if DOCUMENT_MODE e = Some 9 \<or> IPAD e \<or> ANDROID e
            then (Surface (ws\<lparr>SOUNDS := AList.update name
                      (sound\<lparr>volume := (case v of None \<Rightarrow> 1 | Some x \<Rightarrow> x)\<rparr>) (SOUNDS ws)\<rparr>) parent,
                  [Play (sound\<lparr>volume := (case v of None \<Rightarrow> 1 | Some x \<Rightarrow> x)\<rparr>)])
            else (Surface ws parent,
                  [CloneNode sound, Play (sound\<lparr>volume := (case v of None \<Rightarrow> 1 | Some x \<Rightarrow> x)\<rparr>)]))"
  using assms by (simp add: Let_def)

lemma playAudio_up:
  assumes "map_of (SOUNDS ws) name = None"
  shows "playAudio e name v (Surface ws (Some p)) =
           (Surface ws (Some (fst (playAudio e name v p))), snd (playAudio e name v p))"
  using assms by (simp split: prod.splits)

lemma playAudio_nowhere:
  "\<forall>w \<in> set (ancestors s). map_of (SOUNDS w) name = None \<Longrightarrow> playAudio e name v s = (s, [])"
  by (induction s rule: ancestors.induct) (simp_all split: prod.splits)

lemma playAudio_nearest:
  "find (\<lambda>w. map_of (SOUNDS w) name \<noteq> None) (ancestors s) = Some w \<Longrightarrow>
   map_of (SOUNDS w) name = Some sound \<Longrightarrow>
   played (snd (playAudio e name v s)) = [sound\<lparr>volume := (case v of None \<Rightarrow> 1 | Some x \<Rightarrow> x)\<rparr>]"
proof (induction s rule: ancestors.induct)
  case (1 ws)
  then have "w = ws" by (simp split: if_splits)
  with 1 show ?case by (simp add: playAudio_here del: playAudio.simps)
next
  case (2 ws p)
  show ?case
  proof (cases "map_of (SOUNDS ws) name")
    case None
    with 2 show ?thesis by (simp add: playAudio_up del: playAudio.simps)
  next
    case (Some a)
    with 2 have "w = ws" by simp
    with 2 show ?thesis by (simp add: playAudio_here del: playAudio.simps)
  qed
qed

text \<open>
  C5. \<open>loadAudio\<close> keeps at most one element for a name (the names of \<open>SOUNDS\<close> stay
  distinct, and no other name changes). In a browser with \<open>Audio\<close> it stores for the name a
  new element for the first file name whose extension \<open>canPlayType\<close> accepts, and changes
  nothing when there is none; so \<open>["a.mp3", "a.wav"]\<close>, when only \<open>audio/wav\<close> plays, gives
  the element of \<open>a.wav\<close>. The probing belongs to the loading of a sound: \<open>loadAudio\<close>
  makes at most one element to ask, and asks it at most once for each file name, while
  \<open>playAudio\<close> and \<open>preloadAudio\<close> make no such call, and \<open>playAudio\<close> leaves the names of
  \<open>SOUNDS\<close> as they are.
\<close>

theorem loadAudio_first_playable:
  "(hasAudio e \<and> audioHasPlay e \<longrightarrow>
      map_of (SOUNDS (fst (loadAudio e filenames name ws))) name =
        (case find (playable e) filenames of
           None \<Rightarrow> map_of (SOUNDS ws) name
         | Some f \<Rightarrow> Some \<lparr>src = f, volume = 1\<rparr>))
   \<and> (find (playable e) filenames = None \<longrightarrow> fst (loadAudio e filenames name ws) = ws)
   \<and> (\<forall>other. other \<noteq> name \<longrightarrow>
        map_of (SOUNDS (fst (loadAudio e filenames name ws))) other = map_of (SOUNDS ws) other)
   \<and> (distinct (map fst (SOUNDS ws)) \<longrightarrow>
        distinct (map fst (SOUNDS (fst (loadAudio e filenames name ws)))))
   \<and> (hasAudio e \<and> audioHasPlay e \<and> (\<forall>mime. canPlayType e mime = (mime = ''audio/wav'')) \<longrightarrow>
        map_of (SOUNDS (fst (loadAudio e [''a.mp3'', ''a.wav''] name ws))) name =
          Some \<lparr>src = ''a.wav'', volume = 1\<rparr>)
   \<and> length (filter (\<lambda>call. call = NewAudio None) (snd (loadAudio e filenames name ws))) \<le> 1
   \<and> length (filter isProbe (snd (loadAudio e filenames name ws))) \<le> 1 + length filenames
   \<and> filter isProbe (snd (playAudio e request v s)) = []
   \<and> filter isProbe (snd (preloadAudio e ws)) = []
   \<and> map fst (SOUNDS (workspaceOf (fst (playAudio e request v (Surface ws parent)))))
       = map fst (SOUNDS ws)"
proof (intro conjI impI allI)
  show "map_of (SOUNDS (fst (loadAudio e filenames name ws))) name =
        (case find (playable e) filenames of
           None \<Rightarrow> map_of (SOUNDS ws) name
         | Some f \<Rightarrow> Some \<lparr>src = f, volume = 1\<rparr>)"
    if "hasAudio e \<and> audioHasPlay e"
    using that by (simp add: loadAudio_find AList.update_conv' split: option.splits)
  show "fst (loadAudio e filenames name ws) = ws" if "find (playable e) filenames = None"
    using that by (simp add: loadAudio_find)
  show "map_of (SOUNDS (fst (loadAudio e filenames name ws))) other = map_of (SOUNDS ws) other"
    if "other \<noteq> name" for other
    using that by (simp add: loadAudio_find AList.update_conv' split: option.splits)
  show "distinct (map fst (SOUNDS (fst (loadAudio e filenames name ws))))"
    if "distinct (map fst (SOUNDS ws))"
    using that by (simp add: loadAudio_find AList.distinct_update split: option.splits)
  show "map_of (SOUNDS (fst (loadAudio e [''a.mp3'', ''a.wav''] name ws))) name =
          Some \<lparr>src = ''a.wav'', volume = 1\<rparr>"
    if "hasAudio e \<and> audioHasPlay e \<and> (\<forall>mime. canPlayType e mime = (mime = ''audio/wav''))"
  proof -
    from that have "find (playable e) [''a.mp3'', ''a.wav''] = Some ''a.wav''"
      by (intro wav_only) simp
    with that show ?thesis
      by (simp only: loadAudio_find) (simp add: AList.update_conv')
  qed
  show "length (filter (\<lambda>call. call = NewAudio None) (snd (loadAudio e filenames name ws))) \<le> 1"
    and "length (filter isProbe (snd (loadAudio e filenames name ws))) \<le> 1 + length filenames"
    using loadAudio_calls [of e filenames name ws] by simp_all
  show "filter isProbe (snd (playAudio e request v s)) = []"
    by (rule playAudio_no_probe)
  show "filter isProbe (snd (preloadAudio e ws)) = []"
    using preloadLoop_no_probe [of e "SOUNDS ws"]
    by (auto simp: preloadAudio_def split: prod.splits)
  show "map fst (SOUNDS (workspaceOf (fst (playAudio e request v (Surface ws parent)))))
       = map fst (SOUNDS ws)"
    by (rule playAudio_names)
qed

theorem loadAudio_first_playable_witness:
  "hasAudio desktop \<and> audioHasPlay desktop
   \<and> (\<forall>mime. canPlayType desktop mime = (mime = ''audio/wav''))
   \<and> map_of (SOUNDS (fst (loadAudio desktop [''a.mp3'', ''a.wav''] ''click'' soundWorkspace))) ''click''
       = Some \<lparr>src = ''a.wav'', volume = 1\<rparr>
   \<and> find (playable desktop) [''a.mp3'', ''a.ogg'', ''wav''] = None
   \<and> fst (loadAudio desktop [''a.mp3'', ''a.ogg'', ''wav''] ''click'' soundWorkspace) = soundWorkspace
   \<and> ''delete'' \<noteq> ''click''
   \<and> map_of (SOUNDS (fst (loadAudio desktop [''a.mp3'', ''a.wav''] ''click'' soundWorkspace))) ''delete''
       = map_of (SOUNDS soundWorkspace) ''delete''
   \<and> distinct (map fst (SOUNDS soundWorkspace))
   \<and> distinct (map fst (SOUNDS (fst (loadAudio desktop [''a.mp3'', ''a.wav''] ''click'' soundWorkspace))))
   \<and> snd (loadAudio desktop [''a.mp3'', ''a.wav''] ''click'' soundWorkspace)
       = [NewAudio None, CanPlayType ''audio/mp3'', CanPlayType ''audio/wav'',
          NewAudio (Some ''a.wav'')]"
proof -
  have env: "hasAudio desktop \<and> audioHasPlay desktop
      \<and> (\<forall>mime. canPlayType desktop mime = (mime = ''audio/wav''))"
    by (simp add: desktop_def)
  have none: "find (playable desktop) [''a.mp3'', ''a.ogg'', ''wav''] = None"
    by (simp add: playable_def fileExt_def isWordChar_def desktop_def)
  have names: "''delete'' \<noteq> ''click''" "distinct (map fst (SOUNDS soundWorkspace))"
    by (simp_all add: soundWorkspace_def)
  have calls: "snd (loadAudio desktop [''a.mp3'', ''a.wav''] ''click'' soundWorkspace)
       = [NewAudio None, CanPlayType ''audio/mp3'', CanPlayType ''audio/wav'',
          NewAudio (Some ''a.wav'')]"
    by (simp add: loadAudio_def fileExt_def isWordChar_def desktop_def)
  note load = loadAudio_first_playable [where e = desktop and filenames = "[''a.mp3'', ''a.wav'']"
      and name = "''click''" and ws = soundWorkspace
      and request = "''click''" and v = None and s = "Surface soundWorkspace None" and parent = None]
  from load have "hasAudio desktop \<and> audioHasPlay desktop
      \<and> (\<forall>mime. canPlayType desktop mime = (mime = ''audio/wav'')) \<longrightarrow>
    map_of (SOUNDS (fst (loadAudio desktop [''a.mp3'', ''a.wav''] ''click'' soundWorkspace))) ''click''
       = Some \<lparr>src = ''a.wav'', volume = 1\<rparr>"
    by - (elim conjE, assumption)
  with env have a:
    "map_of (SOUNDS (fst (loadAudio desktop [''a.mp3'', ''a.wav''] ''click'' soundWorkspace))) ''click''
       = Some \<lparr>src = ''a.wav'', volume = 1\<rparr>"
    by (rule rev_mp)
  from load have "\<forall>other. other \<noteq> ''click'' \<longrightarrow>
    map_of (SOUNDS (fst (loadAudio desktop [''a.mp3'', ''a.wav''] ''click'' soundWorkspace))) other
       = map_of (SOUNDS soundWorkspace) other"
    by - (elim conjE, assumption)
  with names(1) have b:
    "map_of (SOUNDS (fst (loadAudio desktop [''a.mp3'', ''a.wav''] ''click'' soundWorkspace))) ''delete''
       = map_of (SOUNDS soundWorkspace) ''delete''"
    by (elim allE [of _ "''delete''"] impE)
  from load have "distinct (map fst (SOUNDS soundWorkspace)) \<longrightarrow>
    distinct (map fst (SOUNDS (fst (loadAudio desktop [''a.mp3'', ''a.wav''] ''click'' soundWorkspace))))"
    by - (elim conjE, assumption)
  with names(2) have c:
    "distinct (map fst (SOUNDS (fst (loadAudio desktop [''a.mp3'', ''a.wav''] ''click'' soundWorkspace))))"
    by (rule rev_mp)
  from loadAudio_first_playable [where e = desktop and filenames = "[''a.mp3'', ''a.ogg'', ''wav'']"
      and name = "''click''" and ws = soundWorkspace
      and request = "''click''" and v = None and s = "Surface soundWorkspace None" and parent = None]
  have "find (playable desktop) [''a.mp3'', ''a.ogg'', ''wav''] = None \<longrightarrow>
    fst (loadAudio desktop [''a.mp3'', ''a.ogg'', ''wav''] ''click'' soundWorkspace) = soundWorkspace"
    by - (elim conjE, assumption)
  with none have d:
    "fst (loadAudio desktop [''a.mp3'', ''a.ogg'', ''wav''] ''click'' soundWorkspace) = soundWorkspace"
    by (rule rev_mp)
  show ?thesis
    by (intro conjI env [THEN conjunct1] env [THEN conjunct2, THEN conjunct1]
          env [THEN conjunct2, THEN conjunct2] a none d names b c calls)
qed

text \<open>
  C9. On a platform that is neither iPad nor iPhone, \<open>preloadAudio\<close> sets the volume of
  every sound to 0.01 and calls \<open>play()\<close> and then \<open>pause()\<close> on it, sound after sound. On
  iPad and iPhone it does so for the first sound only and leaves the others as they are.
\<close>

theorem preloadAudio_platforms:
  "(\<not> (IPAD e \<or> IPHONE e) \<longrightarrow>
      preloadAudio e ws =
        (ws\<lparr>SOUNDS := map (\<lambda>(name, sound). (name, sound\<lparr>volume := 0.01\<rparr>)) (SOUNDS ws)\<rparr>,
         concat (map (\<lambda>(name, sound).
           [Play (sound\<lparr>volume := 0.01\<rparr>), Pause (sound\<lparr>volume := 0.01\<rparr>)]) (SOUNDS ws))))
   \<and> (IPAD e \<or> IPHONE e \<longrightarrow>
      preloadAudio e ws =
        (ws\<lparr>SOUNDS := map (\<lambda>(name, sound). (name, sound\<lparr>volume := 0.01\<rparr>)) (take 1 (SOUNDS ws))
                       @ drop 1 (SOUNDS ws)\<rparr>,
         concat (map (\<lambda>(name, sound).
           [Play (sound\<lparr>volume := 0.01\<rparr>), Pause (sound\<lparr>volume := 0.01\<rparr>)]) (take 1 (SOUNDS ws)))))"
  by (simp add: preloadAudio_def preloadLoop_all preloadLoop_first)

theorem preloadAudio_platforms_witness:
  "\<not> (IPAD desktop \<or> IPHONE desktop)
   \<and> preloadAudio desktop soundWorkspace =
       (soundWorkspace\<lparr>SOUNDS := [(''click'', \<lparr>src = ''media/click.wav'', volume = 0.01\<rparr>),
                                   (''delete'', \<lparr>src = ''media/delete.wav'', volume = 0.01\<rparr>)]\<rparr>,
        [Play \<lparr>src = ''media/click.wav'', volume = 0.01\<rparr>,
         Pause \<lparr>src = ''media/click.wav'', volume = 0.01\<rparr>,
         Play \<lparr>src = ''media/delete.wav'', volume = 0.01\<rparr>,
         Pause \<lparr>src = ''media/delete.wav'', volume = 0.01\<rparr>])
   \<and> (IPAD iphone \<or> IPHONE iphone)
   \<and> preloadAudio iphone soundWorkspace =
       (soundWorkspace\<lparr>SOUNDS := [(''click'', \<lparr>src = ''media/click.wav'', volume = 0.01\<rparr>),
                                   (''delete'', \<lparr>src = ''media/delete.wav'', volume = 1\<rparr>)]\<rparr>,
        [Play \<lparr>src = ''media/click.wav'', volume = 0.01\<rparr>,
         Pause \<lparr>src = ''media/click.wav'', volume = 0.01\<rparr>])"
proof -
  have d: "\<not> (IPAD desktop \<or> IPHONE desktop)" and i: "IPAD iphone \<or> IPHONE iphone"
    by (simp_all add: desktop_def iphone_def)
  have s: "SOUNDS soundWorkspace =
      [(''click'', \<lparr>src = ''media/click.wav'', volume = 1\<rparr>),
       (''delete'', \<lparr>src = ''media/delete.wav'', volume = 1\<rparr>)]"
    by (simp add: soundWorkspace_def)
  from preloadAudio_platforms [of desktop soundWorkspace] d
  have a: "preloadAudio desktop soundWorkspace =
       (soundWorkspace\<lparr>SOUNDS := [(''click'', \<lparr>src = ''media/click.wav'', volume = 0.01\<rparr>),
                                   (''delete'', \<lparr>src = ''media/delete.wav'', volume = 0.01\<rparr>)]\<rparr>,
        [Play \<lparr>src = ''media/click.wav'', volume = 0.01\<rparr>,
         Pause \<lparr>src = ''media/click.wav'', volume = 0.01\<rparr>,
         Play \<lparr>src = ''media/delete.wav'', volume = 0.01\<rparr>,
         Pause \<lparr>src = ''media/delete.wav'', volume = 0.01\<rparr>])"
    by (simp add: s)
  from preloadAudio_platforms [of iphone soundWorkspace] i
  have b: "preloadAudio iphone soundWorkspace =
       (soundWorkspace\<lparr>SOUNDS := [(''click'', \<lparr>src = ''media/click.wav'', volume = 0.01\<rparr>),
                                   (''delete'', \<lparr>src = ''media/delete.wav'', volume = 1\<rparr>)]\<rparr>,
        [Play \<lparr>src = ''media/click.wav'', volume = 0.01\<rparr>,
         Pause \<lparr>src = ''media/click.wav'', volume = 0.01\<rparr>])"
    by (simp add: s)
  from d i a b show ?thesis
    by blast
qed

text \<open>
  C7. When the name has a sound on this workspace, \<open>playAudio\<close> plays it, the element
  itself on IE 9, iPad and Android and a clone of it elsewhere, and leaves the parent
  alone. When it has none and there is a parent, the result is that of one \<open>playAudio\<close> of
  the parent. When it has none and there is no parent, or when no ancestor has one,
  nothing is called and nothing changes. In all, the sound played is that of the nearest
  ancestor that has one.
\<close>

theorem playAudio_delegation:
  "(\<forall>sound. map_of (SOUNDS ws) name = Some sound \<longrightarrow>
      (\<exists>ws'. playAudio e name v (Surface ws parent) =
         (Surface ws' parent,
          if DOCUMENT_MODE e = Some 9 \<or> IPAD e \<or> ANDROID e
          then [Play (sound\<lparr>volume := (case v of None \<Rightarrow> 1 | Some x \<Rightarrow> x)\<rparr>)]
          else [CloneNode sound, Play (sound\<lparr>volume := (case v of None \<Rightarrow> 1 | Some x \<Rightarrow> x)\<rparr>)])))
   \<and> (map_of (SOUNDS ws) name = None \<longrightarrow>
        playAudio e name v (Surface ws (Some p)) =
          (Surface ws (Some (fst (playAudio e name v p))), snd (playAudio e name v p)))
   \<and> (map_of (SOUNDS ws) name = None \<longrightarrow>
        playAudio e name v (Surface ws None) = (Surface ws None, []))
   \<and> ((\<forall>w \<in> set (ancestors s). map_of (SOUNDS w) name = None) \<longrightarrow>
        playAudio e name v s = (s, []))
   \<and> (\<forall>w sound. find (\<lambda>w. map_of (SOUNDS w) name \<noteq> None) (ancestors s) = Some w
          \<and> map_of (SOUNDS w) name = Some sound \<longrightarrow>
        played (snd (playAudio e name v s)) =
          [sound\<lparr>volume := (case v of None \<Rightarrow> 1 | Some x \<Rightarrow> x)\<rparr>])"
proof (intro conjI impI allI)
  show "\<exists>ws'. playAudio e name v (Surface ws parent) =
         (Surface ws' parent,
          if DOCUMENT_MODE e = Some 9 \<or> IPAD e \<or> ANDROID e
          then [Play (sound\<lparr>volume := (case v of None \<Rightarrow> 1 | Some x \<Rightarrow> x)\<rparr>)]
          else [CloneNode sound, Play (sound\<lparr>volume := (case v of None \<Rightarrow> 1 | Some x \<Rightarrow> x)\<rparr>)])"
    if "map_of (SOUNDS ws) name = Some sound" for sound
    by (simp only: playAudio_here [OF that]) (simp split: if_splits)
  show "playAudio e name v (Surface ws (Some p)) =
          (Surface ws (Some (fst (playAudio e name v p))), snd (playAudio e name v p))"
    if "map_of (SOUNDS ws) name = None"
    using that by (rule playAudio_up)
  show "playAudio e name v (Surface ws None) = (Surface ws None, [])"
    if "map_of (SOUNDS ws) name = None"
    using that by simp
  show "playAudio e name v s = (s, [])"
    if "\<forall>w \<in> set (ancestors s). map_of (SOUNDS w) name = None"
    using that by (rule playAudio_nowhere)
  show "played (snd (playAudio e name v s)) =
          [sound\<lparr>volume := (case v of None \<Rightarrow> 1 | Some x \<Rightarrow> x)\<rparr>]"
    if "find (\<lambda>w. map_of (SOUNDS w) name \<noteq> None) (ancestors s) = Some w
          \<and> map_of (SOUNDS w) name = Some sound" for w sound
    using that playAudio_nearest by blast
qed

theorem playAudio_delegation_witness:
  "map_of (SOUNDS emptyWorkspace) ''click'' = None
   \<and> find (\<lambda>w. map_of (SOUNDS w) ''click'' \<noteq> None) (ancestors nested) = Some soundWorkspace
   \<and> map_of (SOUNDS soundWorkspace) ''click'' = Some \<lparr>src = ''media/click.wav'', volume = 1\<rparr>
   \<and> played (snd (playAudio desktop ''click'' (Some 0.5) nested))
       = [\<lparr>src = ''media/click.wav'', volume = 0.5\<rparr>]
   \<and> playAudio desktop ''click'' (Some 0.5) (Surface soundWorkspace None)
       = (Surface soundWorkspace None,
          [CloneNode \<lparr>src = ''media/click.wav'', volume = 1\<rparr>,
           Play \<lparr>src = ''media/click.wav'', volume = 0.5\<rparr>])
   \<and> ancestors nested = [emptyWorkspace, emptyWorkspace, soundWorkspace]
   \<and> map_of (SOUNDS emptyWorkspace) ''beep'' = None
   \<and> map_of (SOUNDS soundWorkspace) ''beep'' = None
   \<and> playAudio desktop ''beep'' None nested = (nested, [])"
proof -
  have none: "map_of (SOUNDS emptyWorkspace) ''click'' = None"
    by (simp add: emptyWorkspace_def)
  have some: "map_of (SOUNDS soundWorkspace) ''click'' = Some \<lparr>src = ''media/click.wav'', volume = 1\<rparr>"
    by (simp add: soundWorkspace_def)
  have nearest: "find (\<lambda>w. map_of (SOUNDS w) ''click'' \<noteq> None) (ancestors nested) = Some soundWorkspace"
    by (simp add: nested_def none some)
  have chain: "ancestors nested = [emptyWorkspace, emptyWorkspace, soundWorkspace]"
    by (simp add: nested_def)
  have beep: "map_of (SOUNDS emptyWorkspace) ''beep'' = None"
    "map_of (SOUNDS soundWorkspace) ''beep'' = None"
    by (simp_all add: soundWorkspace_def emptyWorkspace_def)
  have silent: "\<forall>w \<in> set (ancestors nested). map_of (SOUNDS w) ''beep'' = None"
    by (simp add: chain beep)
  have browser: "\<not> (DOCUMENT_MODE desktop = Some 9 \<or> IPAD desktop \<or> ANDROID desktop)"
    by (simp add: desktop_def)
  from playAudio_delegation [of soundWorkspace "''click''" desktop "Some 0.5" None _ nested] some nearest
  have a: "played (snd (playAudio desktop ''click'' (Some 0.5) nested))
       = [\<lparr>src = ''media/click.wav'', volume = 0.5\<rparr>]"
    by fastforce
  from playAudio_delegation [of soundWorkspace "''click''" desktop "Some 0.5" None _ nested] some browser
  have "\<exists>ws'. playAudio desktop ''click'' (Some 0.5) (Surface soundWorkspace None)
       = (Surface ws' None,
          [CloneNode \<lparr>src = ''media/click.wav'', volume = 1\<rparr>,
           Play \<lparr>src = ''media/click.wav'', volume = 0.5\<rparr>])"
    by fastforce
  then have b: "playAudio desktop ''click'' (Some 0.5) (Surface soundWorkspace None)
       = (Surface soundWorkspace None,
          [CloneNode \<lparr>src = ''media/click.wav'', volume = 1\<rparr>,
           Play \<lparr>src = ''media/click.wav'', volume = 0.5\<rparr>])"
    using some browser by (auto simp: Let_def)
  from playAudio_delegation [of emptyWorkspace "''beep''" desktop None None _ nested] silent
  have c: "playAudio desktop ''beep'' None nested = (nested, [])"
    by blast
  from none some nearest chain beep a b c show ?thesis
    by blast
qed

text \<open>
  C10. For a name with a sound, \<open>play()\<close> is called on one element, whose volume is the
  volume given, also when that is 0, and 1 when the argument is \<open>undefined\<close>.
\<close>

theorem playAudio_volume:
  "(\<forall>sound. map_of (SOUNDS ws) name = Some sound \<longrightarrow>
      played (snd (playAudio e name opt_volume (Surface ws parent))) =
        [sound\<lparr>volume := (case opt_volume of None \<Rightarrow> 1 | Some v \<Rightarrow> v)\<rparr>])
   \<and> (map_of (SOUNDS ws) name \<noteq> None \<longrightarrow>
        map volume (played (snd (playAudio e name (Some 0) (Surface ws parent)))) = [0])
   \<and> (map_of (SOUNDS ws) name \<noteq> None \<longrightarrow>
        map volume (played (snd (playAudio e name (Some v) (Surface ws parent)))) = [v])
   \<and> (map_of (SOUNDS ws) name \<noteq> None \<longrightarrow>
        map volume (played (snd (playAudio e name None (Surface ws parent)))) = [1])"
  by (auto simp: playAudio_here simp del: playAudio.simps)

theorem playAudio_volume_witness:
  "map_of (SOUNDS soundWorkspace) ''click'' \<noteq> None
   \<and> map volume (played (snd (playAudio desktop ''click'' (Some 0) (Surface soundWorkspace None)))) = [0]
   \<and> map volume (played (snd (playAudio iphone ''click'' (Some 0) (Surface soundWorkspace None)))) = [0]
   \<and> map volume (played (snd (playAudio desktop ''click'' None (Surface soundWorkspace None)))) = [1]"
proof -
  have some: "map_of (SOUNDS soundWorkspace) ''click'' \<noteq> None"
    by (simp add: soundWorkspace_def)
  from some playAudio_volume [of soundWorkspace "''click''" desktop _ None]
    playAudio_volume [of soundWorkspace "''click''" iphone _ None]
  show ?thesis
    by blast
qed

end
